theory Spec2Isabelle
  imports Main
begin

section \<open>The makcu package initializer\<close>

text \<open>
  The package initializer \<^verbatim>\<open>makcu/__init__.py\<close> imports four names from three sibling
  modules, defines the factory \<^verbatim>\<open>create_controller\<close> and lists five names in
  \<^verbatim>\<open>__all__\<close>:
  \<^verbatim>\<open>
  from .controller import MakcuController
  from .enums import MouseButton
  from .errors import MakcuError, MakcuConnectionError

  def create_controller(port=None, debug=False, send_init=True):
      makcu = MakcuController(port=port, debug=debug, send_init=send_init)
      makcu.connect()
      return makcu

  __all__ = ["MakcuController", "MouseButton", "MakcuError",
             "MakcuConnectionError", "create_controller"]
  \<close>
\<close>

subsection \<open>Values and objects\<close>

text \<open>
  Python values as far as the factory can tell them apart: it never inspects its
  arguments, so a few immutable kinds and a reference to a mutable object suffice.
  An object is known by its identity (\<open>obj_id\<close>); its contents live in the state owned
  by the code that created it.
\<close>

type_synonym obj_id = nat

datatype pyval = PyNone | PyBool bool | PyInt int | PyStr string | PyObj obj_id

type_synonym kwargs = "(string \<times> pyval) list"

subsection \<open>The controller class, as the factory sees it\<close>

text \<open>
  The class \<^verbatim>\<open>MakcuController\<close> is defined in \<^verbatim>\<open>makcu/controller.py\<close>, which the
  initializer only imports. The factory uses two things of it: the constructor, called
  with keyword arguments, and the method \<^verbatim>\<open>connect\<close>, called on the new object.
  Both are parameters here. Each runs on a state \<open>'s\<close> of its own (the device, the serial
  port, the fields of the objects) and either returns or raises an exception \<open>'e\<close>; the
  state it leaves behind is kept in both cases.
\<close>

record ('s, 'e) controller_class =
  init_ctl :: "kwargs \<Rightarrow> 's \<Rightarrow> ('e + obj_id) \<times> 's"
  connect_ctl :: "obj_id \<Rightarrow> pyval list \<Rightarrow> 's \<Rightarrow> ('e + pyval) \<times> 's"

subsection \<open>The world the factory runs in\<close>

text \<open>
  What a call of the factory can touch: the state of the controller module
  (\<open>outside\<close>), the namespace of the package itself (\<open>module_globals\<close>), and the log of
  the calls the factory makes (\<open>trace\<close>), in the order it makes them.
\<close>

datatype event =
    Construct kwargs
  | MethodCall obj_id string "pyval list"

record 's world =
  outside :: 's
  module_globals :: "string \<rightharpoonup> pyval"
  trace :: "event list"

text \<open>\<^verbatim>\<open>MakcuController(**kws)\<close>: the call is logged, the constructor runs on the outside state.\<close>

definition construct ::
  "('s, 'e) controller_class \<Rightarrow> kwargs \<Rightarrow> 's world \<Rightarrow> ('e + obj_id) \<times> 's world" where
  "construct cls kws w =
     (case init_ctl cls kws (outside w) of
        (r, s') \<Rightarrow> (r, w\<lparr>outside := s', trace := trace w @ [Construct kws]\<rparr>))"

text \<open>\<^verbatim>\<open>obj.connect(*args)\<close>: the call is logged, the method runs on the outside state.\<close>

definition call_connect ::
  "('s, 'e) controller_class \<Rightarrow> obj_id \<Rightarrow> pyval list \<Rightarrow> 's world \<Rightarrow> ('e + pyval) \<times> 's world" where
  "call_connect cls obj args w =
     (case connect_ctl cls obj args (outside w) of
        (r, s') \<Rightarrow> (r, w\<lparr>outside := s', trace := trace w @ [MethodCall obj ''connect'' args]\<rparr>))"

subsection \<open>The factory\<close>

text \<open>
  The body of \<^verbatim>\<open>create_controller\<close>, with its three parameters bound. An exception of
  the constructor or of \<^verbatim>\<open>connect\<close> leaves the function at once (\<open>Inl\<close>); the value
  \<^verbatim>\<open>connect\<close> returns is dropped.
\<close>

definition create_controller ::
  "('s, 'e) controller_class \<Rightarrow> pyval \<Rightarrow> pyval \<Rightarrow> pyval \<Rightarrow> 's world \<Rightarrow> ('e + obj_id) \<times> 's world" where
  "create_controller cls port debug send_init w =
     (case construct cls [(''port'', port), (''debug'', debug), (''send_init'', send_init)] w of
        (Inl e, w1) \<Rightarrow> (Inl e, w1)
      | (Inr makcu, w1) \<Rightarrow>
          (case call_connect cls makcu [] w1 of
             (Inl e, w2) \<Rightarrow> (Inl e, w2)
           | (Inr _, w2) \<Rightarrow> (Inr makcu, w2)))"

subsection \<open>Calling the factory: parameters and defaults\<close>

text \<open>
  The parameter list of \<^verbatim>\<open>def create_controller(port=None, debug=False, send_init=True)\<close>:
  each parameter with its default.
\<close>

definition create_controller_params :: "(string \<times> pyval) list" where
  "create_controller_params =
     [(''port'', PyNone), (''debug'', PyBool False), (''send_init'', PyBool True)]"

text \<open>
  Python binds the positional arguments to the parameters from the left (too many is a
  \<^verbatim>\<open>TypeError\<close>), then the keyword arguments by name (an unknown name or a parameter
  already bound is a \<^verbatim>\<open>TypeError\<close>), and gives every parameter left its default.
  \<open>None\<close> stands for the \<^verbatim>\<open>TypeError\<close>.
\<close>

fun bind_positional :: "(string \<times> pyval) list \<Rightarrow> pyval list \<Rightarrow> kwargs option" where
  "bind_positional ps [] = Some []"
| "bind_positional [] (a # as) = None"
| "bind_positional ((n, d) # ps) (a # as) =
     (case bind_positional ps as of None \<Rightarrow> None | Some bound \<Rightarrow> Some ((n, a) # bound))"

fun bind_keywords :: "string list \<Rightarrow> kwargs \<Rightarrow> kwargs \<Rightarrow> kwargs option" where
  "bind_keywords names bound [] = Some bound"
| "bind_keywords names bound ((k, v) # kws) =
     (if k \<in> set names \<and> map_of bound k = None
      then bind_keywords names (bound @ [(k, v)]) kws
      else None)"

definition bind_args :: "(string \<times> pyval) list \<Rightarrow> pyval list \<Rightarrow> kwargs \<Rightarrow> kwargs option" where
  "bind_args params args kws =
     (case bind_positional params args of
        None \<Rightarrow> None
      | Some pos \<Rightarrow>
          (case bind_keywords (map fst params) pos kws of
             None \<Rightarrow> None
           | Some bound \<Rightarrow>
               Some (map (\<lambda>(n, d). (n, case map_of bound n of Some v \<Rightarrow> v | None \<Rightarrow> d)) params)))"

datatype 'e exn = TypeError | Raised 'e

text \<open>
  A call \<^verbatim>\<open>create_controller(*args, **kws)\<close>: the arguments are bound, then the body runs
  on the three locals. A failed binding raises before the body starts, so the world is
  as it was. A binding that succeeds has one entry for each parameter, in the order of
  the parameter list (\<open>bind_args_names\<close> below), so the last case is the failed binding.
\<close>

definition call_create_controller ::
  "('s, 'e) controller_class \<Rightarrow> pyval list \<Rightarrow> kwargs \<Rightarrow> 's world \<Rightarrow> ('e exn + obj_id) \<times> 's world" where
  "call_create_controller cls args kws w =
     (case bind_args create_controller_params args kws of
        Some [(_, port), (_, debug), (_, send_init)] \<Rightarrow>
          (case create_controller cls port debug send_init w of
             (Inl e, w') \<Rightarrow> (Inl (Raised e), w')
           | (Inr obj, w') \<Rightarrow> (Inr obj, w'))
      | _ \<Rightarrow> (Inl TypeError, w))"

subsection \<open>Imports and exports of the package\<close>

text \<open>The three \<^verbatim>\<open>from ... import ...\<close> lines, in order: the module and the names taken from it.\<close>

definition package_imports :: "(string \<times> string list) list" where
  "package_imports =
     [(''.controller'', [''MakcuController'']),
      (''.enums'', [''MouseButton'']),
      (''.errors'', [''MakcuError'', ''MakcuConnectionError''])]"

text \<open>The names the initializer defines itself (its one \<^verbatim>\<open>def\<close>).\<close>

definition package_defs :: "string list" where
  "package_defs = [''create_controller'']"

text \<open>The list \<^verbatim>\<open>__all__\<close>.\<close>

definition package_all :: "string list" where
  "package_all =
     [''MakcuController'', ''MouseButton'', ''MakcuError'', ''MakcuConnectionError'',
      ''create_controller'']"

text \<open>All imported names, and the module a name was imported from.\<close>

definition imported_names :: "string list" where
  "imported_names = concat (map snd package_imports)"

fun origin_in :: "(string \<times> string list) list \<Rightarrow> string \<Rightarrow> string option" where
  "origin_in [] name = None"
| "origin_in ((m, ns) # rest) name = (if name \<in> set ns then Some m else origin_in rest name)"

definition import_origin :: "string \<Rightarrow> string option" where
  "import_origin name = origin_in (rev package_imports) name"

text \<open>The exported names that come from the errors module.\<close>

definition exported_errors :: "string list" where
  "exported_errors = filter (\<lambda>n. import_origin n = Some ''.errors'') package_all"

subsection \<open>A test double for the controller class\<close>

text \<open>
  To run the factory on concrete inputs, a small stand-in for the class: it keeps the
  constructor arguments of every object it made and the objects \<^verbatim>\<open>connect\<close> was called
  on. Its constructor refuses a port that is an integer; its \<^verbatim>\<open>connect\<close> fails on the
  port \<^verbatim>\<open>"COM0"\<close>.
\<close>

datatype stub_error = StubError | StubConnectionError

record stub_state =
  objects :: "kwargs list"
  connected :: "obj_id list"

definition stub_init :: "kwargs \<Rightarrow> stub_state \<Rightarrow> (stub_error + obj_id) \<times> stub_state" where
  "stub_init kws s =
     (case map_of kws ''port'' of
        Some (PyInt _) \<Rightarrow> (Inl StubError, s)
      | _ \<Rightarrow> (Inr (length (objects s)), s\<lparr>objects := objects s @ [kws]\<rparr>))"

definition stub_connect ::
  "obj_id \<Rightarrow> pyval list \<Rightarrow> stub_state \<Rightarrow> (stub_error + pyval) \<times> stub_state" where
  "stub_connect obj args s =
     (if obj < length (objects s) \<and> args = []
         \<and> map_of (objects s ! obj) ''port'' \<noteq> Some (PyStr ''COM0'')
      then (Inr PyNone, s\<lparr>connected := connected s @ [obj]\<rparr>)
      else (Inl StubConnectionError, s))"

definition stub_class :: "(stub_state, stub_error) controller_class" where
  "stub_class = \<lparr>init_ctl = stub_init, connect_ctl = stub_connect\<rparr>"

definition stub_world :: "stub_state world" where
  "stub_world =
     \<lparr>outside = \<lparr>objects = [[(''port'', PyStr ''COM1'')]], connected = []\<rparr>,
      module_globals = Map.empty,
      trace = []\<rparr>"

subsection \<open>Observers on events and values\<close>

fun is_construct :: "event \<Rightarrow> bool" where
  "is_construct (Construct _) = True"
| "is_construct (MethodCall _ _ _) = False"


fun is_bool :: "pyval \<Rightarrow> bool" where
  "is_bool (PyBool _) = True"
| "is_bool _ = False"

section \<open>Properties of the factory\<close>

subsection \<open>The three ways a call can end\<close>

text \<open>The keyword arguments the factory hands to the constructor.\<close>

abbreviation ctor_kwargs :: "pyval \<Rightarrow> pyval \<Rightarrow> pyval \<Rightarrow> kwargs" where
  "ctor_kwargs port debug send_init \<equiv>
     [(''port'', port), (''debug'', debug), (''send_init'', send_init)]"

lemma factory_ends_init_raises:
  assumes "init_ctl cls (ctor_kwargs port debug send_init) (outside w) = (Inl e, s1)"
  shows "create_controller cls port debug send_init w =
           (Inl e, w\<lparr>outside := s1,
                     trace := trace w @ [Construct (ctor_kwargs port debug send_init)]\<rparr>)"
  using assms by (simp add: create_controller_def construct_def)

lemma factory_ends_connect_raises:
  assumes "init_ctl cls (ctor_kwargs port debug send_init) (outside w) = (Inr obj, s1)"
    and "connect_ctl cls obj [] s1 = (Inl e, s2)"
  shows "create_controller cls port debug send_init w =
           (Inl e, w\<lparr>outside := s2,
                     trace := trace w @ [Construct (ctor_kwargs port debug send_init),
                                         MethodCall obj ''connect'' []]\<rparr>)"
  using assms by (simp add: create_controller_def construct_def call_connect_def)

lemma factory_ends_returning:
  assumes "init_ctl cls (ctor_kwargs port debug send_init) (outside w) = (Inr obj, s1)"
    and "connect_ctl cls obj [] s1 = (Inr v, s2)"
  shows "create_controller cls port debug send_init w =
           (Inr obj, w\<lparr>outside := s2,
                      trace := trace w @ [Construct (ctor_kwargs port debug send_init),
                                          MethodCall obj ''connect'' []]\<rparr>)"
  using assms by (simp add: create_controller_def construct_def call_connect_def)

lemma factory_returned:
  assumes "fst (create_controller cls port debug send_init w) = Inr obj"
  shows "\<exists>s1 v s2.
           init_ctl cls (ctor_kwargs port debug send_init) (outside w) = (Inr obj, s1)
           \<and> connect_ctl cls obj [] s1 = (Inr v, s2)"
  using assms
  by (auto simp: create_controller_def construct_def call_connect_def
           split: prod.splits sum.splits)

lemma stub_run_ok:
  "create_controller stub_class (PyStr ''COM3'') (PyInt 5) (PyBool False) stub_world =
     (Inr 1,
      \<lparr>outside = \<lparr>objects = [[(''port'', PyStr ''COM1'')],
                             ctor_kwargs (PyStr ''COM3'') (PyInt 5) (PyBool False)],
                  connected = [1]\<rparr>,
       module_globals = Map.empty,
       trace = [Construct (ctor_kwargs (PyStr ''COM3'') (PyInt 5) (PyBool False)),
                MethodCall 1 ''connect'' []]\<rparr>)"
  by (simp add: create_controller_def construct_def call_connect_def stub_class_def
        stub_init_def stub_connect_def stub_world_def)

lemma stub_run_defaults:
  "create_controller stub_class PyNone (PyBool False) (PyBool True) stub_world =
     (Inr 1,
      \<lparr>outside = \<lparr>objects = [[(''port'', PyStr ''COM1'')],
                             ctor_kwargs PyNone (PyBool False) (PyBool True)],
                  connected = [1]\<rparr>,
       module_globals = Map.empty,
       trace = [Construct (ctor_kwargs PyNone (PyBool False) (PyBool True)),
                MethodCall 1 ''connect'' []]\<rparr>)"
  by (simp add: create_controller_def construct_def call_connect_def stub_class_def
        stub_init_def stub_connect_def stub_world_def)

subsection \<open>The returned object\<close>

text \<open>
  C1. Whenever the factory returns, the object it returns is the very object (same
  identity) that the constructor returned when called, on the state the factory started
  in, with the keyword arguments \<^verbatim>\<open>port\<close>, \<^verbatim>\<open>debug\<close>, \<^verbatim>\<open>send_init\<close> bound to the
  three values the factory received, whatever those values are; and that constructor
  call, with the arguments unchanged, is the first thing the factory does and the only
  construction it makes.
\<close>

theorem create_controller_returns_constructed_object:
  assumes "fst (create_controller cls port debug send_init w) = Inr obj"
  shows "fst (init_ctl cls [(''port'', port), (''debug'', debug), (''send_init'', send_init)]
                (outside w)) = Inr obj
         \<and> take (Suc (length (trace w)))
               (trace (snd (create_controller cls port debug send_init w)))
             = trace w @ [Construct [(''port'', port), (''debug'', debug),
                                     (''send_init'', send_init)]]
         \<and> length (filter is_construct
               (trace (snd (create_controller cls port debug send_init w))))
             = Suc (length (filter is_construct (trace w)))"
proof -
  from factory_returned [OF assms] obtain s1 v s2 where
    i: "init_ctl cls (ctor_kwargs port debug send_init) (outside w) = (Inr obj, s1)"
    and c: "connect_ctl cls obj [] s1 = (Inr v, s2)" by blast
  show ?thesis
    by (simp add: factory_ends_returning [OF i c] i)
qed

theorem create_controller_returns_constructed_object_witness:
  "fst (create_controller stub_class (PyStr ''COM3'') (PyInt 5) (PyBool False) stub_world)
     = Inr 1
   \<and> fst (init_ctl stub_class
            [(''port'', PyStr ''COM3''), (''debug'', PyInt 5), (''send_init'', PyBool False)]
            (outside stub_world)) = Inr 1"
proof -
  have h: "fst (create_controller stub_class (PyStr ''COM3'') (PyInt 5) (PyBool False)
                  stub_world) = Inr 1"
    by (simp add: stub_run_ok)
  from create_controller_returns_constructed_object [OF h] h show ?thesis by simp
qed

subsection \<open>The connect call\<close>



subsection \<open>Exceptions\<close>

text \<open>
  C3. The factory (its body, the three parameters bound) raises \<open>e\<close> exactly when the
  constructor raises \<open>e\<close>, or the constructor returns an object and \<^verbatim>\<open>connect()\<close> on it
  raises \<open>e\<close>: the exception that leaves the factory is the one that was raised, as it
  was raised, and a call that raises returns no object.
\<close>

theorem create_controller_raises_iff:
  "(fst (create_controller cls port debug send_init w) = Inl e \<longleftrightarrow>
      (case init_ctl cls [(''port'', port), (''debug'', debug), (''send_init'', send_init)]
              (outside w) of
         (Inl e', s1) \<Rightarrow> e' = e
       | (Inr obj, s1) \<Rightarrow> fst (connect_ctl cls obj [] s1) = Inl e))
   \<and> (fst (create_controller cls port debug send_init w) = Inl e \<longrightarrow>
        (\<forall>obj. fst (create_controller cls port debug send_init w) \<noteq> Inr obj))"
  by (auto simp: create_controller_def construct_def call_connect_def
           split: prod.splits sum.splits)

theorem create_controller_raises_iff_witness:
  "fst (create_controller stub_class (PyStr ''COM0'') (PyBool False) (PyBool True) stub_world)
     = Inl StubConnectionError
   \<and> fst (create_controller stub_class (PyStr ''COM0'') (PyBool False) (PyBool True) stub_world)
     \<noteq> Inr 1
   \<and> fst (init_ctl stub_class
            [(''port'', PyStr ''COM0''), (''debug'', PyBool False), (''send_init'', PyBool True)]
            (outside stub_world)) = Inr 1"
  using create_controller_raises_iff
          [of stub_class "PyStr ''COM0''" "PyBool False" "PyBool True" stub_world
              StubConnectionError]
  by (simp add: stub_class_def stub_init_def stub_connect_def stub_world_def)

subsection \<open>Nothing else happens\<close>

text \<open>
  C8. The world after a call is the world before it, changed in two places only: the
  state of the controller module is what the constructor, and then \<^verbatim>\<open>connect()\<close> on
  the new object, left behind; and the log has grown by the construction, with the
  arguments as the factory received them, followed if the constructor returned by the
  one call of \<^verbatim>\<open>connect\<close> with no arguments. No other call is logged and the
  namespace of the package is as it was.
\<close>

theorem create_controller_frame:
  "snd (create_controller cls port debug send_init w) =
     (case init_ctl cls [(''port'', port), (''debug'', debug), (''send_init'', send_init)]
             (outside w) of
        (Inl e, s1) \<Rightarrow>
          w\<lparr>outside := s1,
            trace := trace w @ [Construct [(''port'', port), (''debug'', debug),
                                           (''send_init'', send_init)]]\<rparr>
      | (Inr obj, s1) \<Rightarrow>
          w\<lparr>outside := snd (connect_ctl cls obj [] s1),
            trace := trace w @ [Construct [(''port'', port), (''debug'', debug),
                                           (''send_init'', send_init)],
                                MethodCall obj ''connect'' []]\<rparr>)
   \<and> module_globals (snd (create_controller cls port debug send_init w)) = module_globals w"
  by (auto simp: create_controller_def construct_def call_connect_def
           split: prod.splits sum.splits)

theorem create_controller_frame_witness:
  "snd (create_controller stub_class (PyStr ''COM3'') (PyInt 5) (PyBool False) stub_world) =
     \<lparr>outside = \<lparr>objects = [[(''port'', PyStr ''COM1'')],
                            [(''port'', PyStr ''COM3''), (''debug'', PyInt 5),
                             (''send_init'', PyBool False)]],
                 connected = [1]\<rparr>,
      module_globals = Map.empty,
      trace = [Construct [(''port'', PyStr ''COM3''), (''debug'', PyInt 5),
                          (''send_init'', PyBool False)],
               MethodCall 1 ''connect'' []]\<rparr>"
  using create_controller_frame
          [of stub_class "PyStr ''COM3''" "PyInt 5" "PyBool False" stub_world]
  by (simp add: stub_class_def stub_init_def stub_connect_def stub_world_def)

subsection \<open>Binding the arguments\<close>

lemma bind_positional_None_iff:
  "bind_positional ps args = None \<longleftrightarrow> length ps < length args"
  by (induction ps args rule: bind_positional.induct) (auto split: option.splits)

lemma bind_args_too_many:
  "length params < length args \<Longrightarrow> bind_args params args kws = None"
  by (simp add: bind_args_def bind_positional_None_iff [THEN iffD2])

lemma bind_keywords_unknown:
  "k \<notin> set names \<Longrightarrow> (k, v) \<in> set kws \<Longrightarrow> bind_keywords names bound kws = None"
  by (induction names bound kws rule: bind_keywords.induct) auto

lemma bind_args_names:
  assumes "bind_args params args kws = Some locals"
  shows "map fst locals = map fst params"
  using assms
  by (auto simp: bind_args_def case_prod_beta split: option.splits)

lemma call_create_controller_bound:
  assumes "bind_args create_controller_params args kws
             = Some [(''port'', p), (''debug'', d), (''send_init'', s)]"
  shows "call_create_controller cls args kws w =
           (case create_controller cls p d s w of
              (Inl e, w') \<Rightarrow> (Inl (Raised e), w')
            | (Inr obj, w') \<Rightarrow> (Inr obj, w'))"
  using assms by (simp add: call_create_controller_def)

text \<open>
  C6 (as amended). The factory has exactly three parameters, named \<^verbatim>\<open>port\<close>,
  \<^verbatim>\<open>debug\<close> and \<^verbatim>\<open>send_init\<close> in this order: a fourth positional argument or a
  keyword of any other name is rejected, three arguments are accepted. The port may be
  left out, and is then \<^verbatim>\<open>None\<close>. The defaults of \<^verbatim>\<open>debug\<close> and \<^verbatim>\<open>send_init\<close> are
  booleans, but the parameters are not restricted to booleans: whatever three values
  are given are bound as they are, and the body runs on them. (That one value is
  returned is the result type of \<open>create_controller\<close>: an exception or one object.)
\<close>

theorem create_controller_signature:
  "map fst create_controller_params = [''port'', ''debug'', ''send_init'']
   \<and> (bind_args create_controller_params args [] = None \<longleftrightarrow> 3 < length args)
   \<and> (k \<notin> {''port'', ''debug'', ''send_init''} \<and> (k, v) \<in> set kws \<longrightarrow>
        bind_args create_controller_params args kws = None)
   \<and> bind_args create_controller_params [] [(''debug'', d), (''send_init'', s)]
       = Some [(''port'', PyNone), (''debug'', d), (''send_init'', s)]
   \<and> bind_args create_controller_params [p, d, s] []
       = Some [(''port'', p), (''debug'', d), (''send_init'', s)]
   \<and> map_of create_controller_params ''port'' = Some PyNone
   \<and> (case map_of create_controller_params ''debug'' of
         Some b \<Rightarrow> is_bool b | None \<Rightarrow> False)
   \<and> (case map_of create_controller_params ''send_init'' of
         Some b \<Rightarrow> is_bool b | None \<Rightarrow> False)
   \<and> call_create_controller cls [p, d, s] [] w
       = (case create_controller cls p d s w of
            (Inl e, w') \<Rightarrow> (Inl (Raised e), w')
          | (Inr obj, w') \<Rightarrow> (Inr obj, w'))"
proof -
  have names: "map fst create_controller_params = [''port'', ''debug'', ''send_init'']"
    by (simp add: create_controller_params_def)
  have len: "length create_controller_params = 3"
    by (simp add: create_controller_params_def)
  have pos: "bind_args create_controller_params args [] = None \<longleftrightarrow> 3 < length args"
  proof (cases "bind_positional create_controller_params args")
    case None
    then show ?thesis
      using bind_positional_None_iff [of create_controller_params args]
      by (simp add: bind_args_def len)
  next
    case (Some pos)
    then show ?thesis
      using bind_positional_None_iff [of create_controller_params args]
      by (simp add: bind_args_def len)
  qed
  have unk: "k \<notin> {''port'', ''debug'', ''send_init''} \<and> (k, v) \<in> set kws \<longrightarrow>
               bind_args create_controller_params args kws = None"
  proof
    assume a: "k \<notin> {''port'', ''debug'', ''send_init''} \<and> (k, v) \<in> set kws"
    then have "k \<notin> set (map fst create_controller_params)"
      by (simp add: names)
    with a have "\<And>bound. bind_keywords (map fst create_controller_params) bound kws = None"
      by (blast intro: bind_keywords_unknown)
    then show "bind_args create_controller_params args kws = None"
      by (simp add: bind_args_def split: option.splits)
  qed
  have omit: "bind_args create_controller_params [] [(''debug'', d), (''send_init'', s)]
                = Some [(''port'', PyNone), (''debug'', d), (''send_init'', s)]"
    by (simp add: bind_args_def create_controller_params_def)
  have three: "bind_args create_controller_params [p, d, s] []
                 = Some [(''port'', p), (''debug'', d), (''send_init'', s)]"
    by (simp add: bind_args_def create_controller_params_def)
  have dflt: "map_of create_controller_params ''port'' = Some PyNone"
    "case map_of create_controller_params ''debug'' of Some b \<Rightarrow> is_bool b | None \<Rightarrow> False"
    "case map_of create_controller_params ''send_init'' of Some b \<Rightarrow> is_bool b | None \<Rightarrow> False"
    by (simp_all add: create_controller_params_def)
  have run: "call_create_controller cls [p, d, s] [] w
               = (case create_controller cls p d s w of
                    (Inl e, w') \<Rightarrow> (Inl (Raised e), w')
                  | (Inr obj, w') \<Rightarrow> (Inr obj, w'))"
    by (rule call_create_controller_bound [OF three])
  show ?thesis by (intro conjI names pos unk omit three dflt run)
qed

theorem create_controller_signature_witness:
  "bind_args create_controller_params [PyNone, PyNone, PyNone, PyNone] [] = None
   \<and> bind_args create_controller_params [] [(''timeout'', PyInt 1)] = None"
proof -
  have many: "3 < length [PyNone, PyNone, PyNone, PyNone]"
    by simp
  have unknown: "''timeout'' \<notin> {''port'', ''debug'', ''send_init''}
                 \<and> (''timeout'', PyInt 1) \<in> set [(''timeout'', PyInt 1)]"
    by simp
  have 1: "bind_args create_controller_params [PyNone, PyNone, PyNone, PyNone] [] = None"
    by (rule create_controller_signature [THEN conjunct2, THEN conjunct1, THEN iffD2, OF many])
  have 2: "bind_args create_controller_params [] [(''timeout'', PyInt 1)] = None"
    by (rule create_controller_signature
          [THEN conjunct2, THEN conjunct2, THEN conjunct1, THEN mp, OF unknown])
  from 1 2 show ?thesis by (rule conjI)
qed

text \<open>
  C6 as stated has \<^verbatim>\<open>debug\<close> and \<^verbatim>\<open>send_init\<close> be boolean flags; the call
  \<^verbatim>\<open>create_controller(None, 5, "yes")\<close> is accepted, binds the integer and the string
  to them, and hands both to the constructor as they are.
\<close>

theorem create_controller_signature_counterexample:
  "\<not> is_bool (PyInt 5) \<and> \<not> is_bool (PyStr ''yes'')
   \<and> bind_args create_controller_params [PyNone, PyInt 5, PyStr ''yes''] []
       = Some [(''port'', PyNone), (''debug'', PyInt 5), (''send_init'', PyStr ''yes'')]
   \<and> call_create_controller stub_class [PyNone, PyInt 5, PyStr ''yes''] [] stub_world
       = (Inr 1,
          \<lparr>outside = \<lparr>objects = [[(''port'', PyStr ''COM1'')],
                                 [(''port'', PyNone), (''debug'', PyInt 5),
                                  (''send_init'', PyStr ''yes'')]],
                      connected = [1]\<rparr>,
           module_globals = Map.empty,
           trace = [Construct [(''port'', PyNone), (''debug'', PyInt 5),
                               (''send_init'', PyStr ''yes'')],
                    MethodCall 1 ''connect'' []]\<rparr>)"
proof -
  have b: "bind_args create_controller_params [PyNone, PyInt 5, PyStr ''yes''] []
             = Some [(''port'', PyNone), (''debug'', PyInt 5), (''send_init'', PyStr ''yes'')]"
    by (simp add: bind_args_def create_controller_params_def)
  have r: "create_controller stub_class PyNone (PyInt 5) (PyStr ''yes'') stub_world
             = (Inr 1,
                \<lparr>outside = \<lparr>objects = [[(''port'', PyStr ''COM1'')],
                                       [(''port'', PyNone), (''debug'', PyInt 5),
                                        (''send_init'', PyStr ''yes'')]],
                            connected = [1]\<rparr>,
                 module_globals = Map.empty,
                 trace = [Construct [(''port'', PyNone), (''debug'', PyInt 5),
                                     (''send_init'', PyStr ''yes'')],
                          MethodCall 1 ''connect'' []]\<rparr>)"
    by (simp add: create_controller_def construct_def call_connect_def stub_class_def
          stub_init_def stub_connect_def stub_world_def)
  have c: "call_create_controller stub_class [PyNone, PyInt 5, PyStr ''yes''] [] stub_world
             = (Inr 1,
                \<lparr>outside = \<lparr>objects = [[(''port'', PyStr ''COM1'')],
                                       [(''port'', PyNone), (''debug'', PyInt 5),
                                        (''send_init'', PyStr ''yes'')]],
                            connected = [1]\<rparr>,
                 module_globals = Map.empty,
                 trace = [Construct [(''port'', PyNone), (''debug'', PyInt 5),
                                     (''send_init'', PyStr ''yes'')],
                          MethodCall 1 ''connect'' []]\<rparr>)"
    by (simp add: call_create_controller_bound [OF b] r)
  have n: "\<not> is_bool (PyInt 5)" "\<not> is_bool (PyStr ''yes'')"
    by simp_all
  show ?thesis by (intro conjI n b c)
qed

text \<open>
  C7. Every parameter has a default: \<^verbatim>\<open>None\<close> for the port, \<^verbatim>\<open>False\<close> for
  \<^verbatim>\<open>debug\<close>, \<^verbatim>\<open>True\<close> for \<^verbatim>\<open>send_init\<close>. A call with no arguments is the call
  with these three values, by keyword or by position, and runs the body on them; a
  call that gives some of the arguments takes the defaults for the others.
\<close>

theorem create_controller_defaults:
  "map snd create_controller_params = [PyNone, PyBool False, PyBool True]
   \<and> call_create_controller cls [] [] w
       = call_create_controller cls []
           [(''port'', PyNone), (''debug'', PyBool False), (''send_init'', PyBool True)] w
   \<and> call_create_controller cls [] [] w
       = (case create_controller cls PyNone (PyBool False) (PyBool True) w of
            (Inl e, w') \<Rightarrow> (Inl (Raised e), w')
          | (Inr obj, w') \<Rightarrow> (Inr obj, w'))
   \<and> call_create_controller cls [p] [] w
       = call_create_controller cls [p, PyBool False, PyBool True] [] w
   \<and> call_create_controller cls [] [(''debug'', d)] w
       = call_create_controller cls [PyNone, d, PyBool True] [] w
   \<and> call_create_controller cls [] [(''send_init'', s)] w
       = call_create_controller cls [PyNone, PyBool False, s] [] w"
proof -
  have b: "\<And>args kws p d s.
      bind_args create_controller_params args kws
        = Some [(''port'', p), (''debug'', d), (''send_init'', s)] \<Longrightarrow>
      call_create_controller cls args kws w =
        (case create_controller cls p d s w of
           (Inl e, w') \<Rightarrow> (Inl (Raised e), w')
         | (Inr obj, w') \<Rightarrow> (Inr obj, w'))"
    by (rule call_create_controller_bound)
  have d: "map snd create_controller_params = [PyNone, PyBool False, PyBool True]"
    by (simp add: create_controller_params_def)
  have 0: "call_create_controller cls [] [] w =
             (case create_controller cls PyNone (PyBool False) (PyBool True) w of
                (Inl e, w') \<Rightarrow> (Inl (Raised e), w')
              | (Inr obj, w') \<Rightarrow> (Inr obj, w'))"
    by (rule b) (simp add: bind_args_def create_controller_params_def)
  have 1: "call_create_controller cls []
             [(''port'', PyNone), (''debug'', PyBool False), (''send_init'', PyBool True)] w =
             (case create_controller cls PyNone (PyBool False) (PyBool True) w of
                (Inl e, w') \<Rightarrow> (Inl (Raised e), w')
              | (Inr obj, w') \<Rightarrow> (Inr obj, w'))"
    by (rule b) (simp add: bind_args_def create_controller_params_def)
  have 2: "call_create_controller cls [p] [] w
             = call_create_controller cls [p, PyBool False, PyBool True] [] w"
    by (simp add: call_create_controller_def bind_args_def create_controller_params_def)
  have 3: "call_create_controller cls [] [(''debug'', d)] w
             = call_create_controller cls [PyNone, d, PyBool True] [] w"
    by (simp add: call_create_controller_def bind_args_def create_controller_params_def)
  have 4: "call_create_controller cls [] [(''send_init'', s)] w
             = call_create_controller cls [PyNone, PyBool False, s] [] w"
    by (simp add: call_create_controller_def bind_args_def create_controller_params_def)
  from d 0 1 2 3 4 show ?thesis by simp
qed

theorem create_controller_defaults_witness:
  "call_create_controller stub_class [] [] stub_world =
     (Inr 1,
      \<lparr>outside = \<lparr>objects = [[(''port'', PyStr ''COM1'')],
                             [(''port'', PyNone), (''debug'', PyBool False),
                              (''send_init'', PyBool True)]],
                  connected = [1]\<rparr>,
       module_globals = Map.empty,
       trace = [Construct [(''port'', PyNone), (''debug'', PyBool False),
                           (''send_init'', PyBool True)],
                MethodCall 1 ''connect'' []]\<rparr>)"
proof -
  have "call_create_controller stub_class [] [] stub_world =
          (case create_controller stub_class PyNone (PyBool False) (PyBool True) stub_world of
             (Inl e, w') \<Rightarrow> (Inl (Raised e), w')
           | (Inr obj, w') \<Rightarrow> (Inr obj, w'))"
    by (rule create_controller_defaults [THEN conjunct2, THEN conjunct2, THEN conjunct1])
  then show ?thesis by (simp add: stub_run_defaults)
qed

section \<open>Properties of the export list\<close>

text \<open>
  C4 (as amended). The export list consists of exactly five distinct names: the four
  imported names followed by the one function the initializer defines. The four
  imported names come from three modules: \<^verbatim>\<open>MakcuController\<close> from
  \<^verbatim>\<open>.controller\<close>, \<^verbatim>\<open>MouseButton\<close> from \<^verbatim>\<open>.enums\<close>, and the two error names from
  \<^verbatim>\<open>.errors\<close>.
\<close>

theorem package_exports:
  "package_all = [''MakcuController'', ''MouseButton'', ''MakcuError'',
                  ''MakcuConnectionError'', ''create_controller'']
   \<and> distinct package_all \<and> length package_all = 5
   \<and> imported_names = [''MakcuController'', ''MouseButton'', ''MakcuError'',
                        ''MakcuConnectionError'']
   \<and> package_all = imported_names @ package_defs
   \<and> map import_origin package_all
       = [Some ''.controller'', Some ''.enums'', Some ''.errors'', Some ''.errors'', None]"
  by (simp add: package_all_def imported_names_def package_imports_def package_defs_def
        import_origin_def)

text \<open>
  C4 as stated has all four imported names come from the controller module; the name
  \<^verbatim>\<open>MouseButton\<close> is imported, and not from there.
\<close>

theorem package_exports_counterexample:
  "''MouseButton'' \<in> set imported_names
   \<and> import_origin ''MouseButton'' \<noteq> Some ''.controller''"
  by (simp add: imported_names_def package_imports_def import_origin_def)

text \<open>
  C5. The exported names that come from the errors module are exactly two,
  \<^verbatim>\<open>MakcuError\<close> and \<^verbatim>\<open>MakcuConnectionError\<close>; they are different names and both are
  in the export list.
\<close>

theorem exported_error_types:
  "exported_errors = [''MakcuError'', ''MakcuConnectionError'']
   \<and> length exported_errors = 2
   \<and> distinct exported_errors
   \<and> set exported_errors \<subseteq> set package_all"
  by (simp add: exported_errors_def package_all_def package_imports_def import_origin_def)

end
